theory Spec2Isabelle
  imports Main "HOL-Library.Word" "HOL-Library.Multiset"
begin

section \<open>Identifiers: fixed-size byte arrays\<close>

type_synonym byte = "8 word"

text \<open>
  Go's \<^verbatim>\<open>[20]byte\<close> and \<^verbatim>\<open>[32]byte\<close> arrays: byte sequences whose length is part of
  the type. \<^verbatim>\<open>Hash20_bytes\<close> and \<^verbatim>\<open>Hash32_bytes\<close> read the array as a slice
  (\<^verbatim>\<open>h[:]\<close>).
\<close>

typedef Hash20 = "{bs :: byte list. length bs = 20}"
  morphisms Hash20_bytes Hash20_of
  by (rule exI [of _ "replicate 20 0"]) simp

typedef Hash32 = "{bs :: byte list. length bs = 32}"
  morphisms Hash32_bytes Hash32_of
  by (rule exI [of _ "replicate 32 0"]) simp

setup_lifting type_definition_Hash20
setup_lifting type_definition_Hash32

text \<open>
  Modelled from the spec: \<^verbatim>\<open>Hash20.ToHash32\<close> and \<^verbatim>\<open>Hash32.ToHash20\<close> live in the
  repository's hash utilities, which are not among the sources at hand. The
  identifier is "a byte-truncation of a wider fixed-size hash (32 bytes to 20
  bytes)", and "padding on widen-back must use zero bytes in the dropped
  position"; the comment on \<^verbatim>\<open>AsHash32\<close> fixes the position: the first 20 bytes
  are the identifier, "right-padded with zeros".
\<close>

lift_definition ToHash32 :: "Hash20 \<Rightarrow> Hash32" is "\<lambda>h. h @ replicate 12 0"
  by simp

lift_definition ToHash20 :: "Hash32 \<Rightarrow> Hash20" is "take 20"
  by simp

lift_definition zero_Hash20 :: Hash20 is "replicate 20 0"
  by simp

text \<open>\<^verbatim>\<open>type BallotID Hash20\<close>, \<^verbatim>\<open>type ProposalID Hash20\<close>; \<^verbatim>\<open>BlockID(pid)\<close> converts a
  ProposalID, so a BlockID is a 20-byte array as well.\<close>

type_synonym BallotID = Hash20
type_synonym ProposalID = Hash20
type_synonym BlockID = Hash20

definition EmptyBallotID :: BallotID where
  "EmptyBallotID = zero_Hash20"

definition EmptyProposalID :: ProposalID where
  "EmptyProposalID = zero_Hash20"

definition BallotID_AsHash32 :: "BallotID \<Rightarrow> Hash32" where
  "BallotID_AsHash32 bid = ToHash32 bid"

definition BallotID_Bytes :: "BallotID \<Rightarrow> byte list" where
  "BallotID_Bytes bid = Hash32_bytes (BallotID_AsHash32 bid)"

definition ProposalID_AsHash32 :: "ProposalID \<Rightarrow> Hash32" where
  "ProposalID_AsHash32 pid = ToHash32 pid"

definition ProposalID_Bytes :: "ProposalID \<Rightarrow> byte list" where
  "ProposalID_Bytes pid = Hash32_bytes (ProposalID_AsHash32 pid)"

section \<open>Ballots and proposals\<close>

text \<open>\<^verbatim>\<open>b.LayerIndex.Value\<close> is logged as a \<^verbatim>\<open>uint32\<close>.\<close>

record LayerID =
  Value :: "32 word"

record VotingEligibilityProof =
  J :: "32 word"
  Sig :: "byte list"

text \<open>
  The declarations of \<^verbatim>\<open>ATXID\<close>, \<^verbatim>\<open>Beacon\<close> and \<^verbatim>\<open>TransactionID\<close> are not among
  the sources at hand; nothing below looks inside them, so they are the type
  parameters \<open>'atx\<close>, \<open>'beacon\<close> and \<open>'tx\<close>.
\<close>

record ('atx, 'beacon) EpochData =
  ActiveSet :: "'atx list"
  Beacon :: "'beacon"

record ('atx, 'beacon) InnerBallot =
  AtxID :: "'atx"
  EligibilityProof :: VotingEligibilityProof
  BaseBallot :: BallotID
  AgainstDiff :: "BlockID list"
  ForDiff :: "BlockID list"
  NeutralDiff :: "BlockID list"
  RefBallot :: BallotID
  EpochData :: "('atx, 'beacon) EpochData option"
  LayerIndex :: LayerID

text \<open>\<^verbatim>\<open>signing.PublicKey\<close> wraps the key bytes; \<^verbatim>\<open>signing.NewPublicKey\<close> builds one.\<close>

datatype PublicKey = NewPublicKey "byte list"

text \<open>
  Modelled from the spec: \<^verbatim>\<open>PublicKey.Equals\<close> belongs to the signing package, which
  is not among the sources at hand. Step (d) of the Proposal's initialization is to
  "compare against embedded Ballot's signer" and to fail "if unequal": equality of
  the keys' bytes.
\<close>

fun PublicKey_Equals :: "PublicKey \<Rightarrow> PublicKey \<Rightarrow> bool" where
  "PublicKey_Equals (NewPublicKey a) (NewPublicKey b) = (a = b)"

text \<open>The cached \<^verbatim>\<open>smesherID\<close> is a pointer: \<open>None\<close> is \<^verbatim>\<open>nil\<close>.\<close>

record ('atx, 'beacon) Ballot =
  InnerBallot :: "('atx, 'beacon) InnerBallot"
  Signature :: "byte list"
  ballotID :: BallotID
  smesherID :: "PublicKey option"

record ('atx, 'beacon, 'tx) InnerProposal =
  Ballot :: "('atx, 'beacon) Ballot"
  TxIDs :: "'tx list"

record ('atx, 'beacon, 'tx) Proposal =
  InnerProposal :: "('atx, 'beacon, 'tx) InnerProposal"
  Signature :: "byte list"
  proposalID :: ProposalID

text \<open>
  The collaborators outside these two files, taken as parameters: the canonical
  encoders (\<^verbatim>\<open>codec.Encode\<close> on an InnerBallot, \<^verbatim>\<open>InterfaceToBytes\<close> on an
  InnerProposal; \<open>Inl\<close> is their error), the 32-byte hash \<^verbatim>\<open>CalcHash32\<close> and
  \<^verbatim>\<open>ed25519.ExtractPublicKey\<close> (\<open>Inl\<close> is its error).
\<close>

record ('atx, 'beacon, 'tx) externals =
  codec_Encode :: "('atx, 'beacon) InnerBallot \<Rightarrow> string + byte list"
  InterfaceToBytes :: "('atx, 'beacon, 'tx) InnerProposal \<Rightarrow> string + byte list"
  CalcHash32 :: "byte list \<Rightarrow> Hash32"
  ExtractPublicKey :: "byte list \<Rightarrow> byte list \<Rightarrow> string + byte list"

text \<open>
  What \<^verbatim>\<open>Initialize\<close> can end with other than \<^verbatim>\<open>nil\<close>: the four \<^verbatim>\<open>fmt.Errorf\<close>
  values of the two functions (the extraction errors wrap the library's error, the
  mismatch names the proposal's key and then the ballot's), the \<^verbatim>\<open>log.Panic\<close> of the
  two \<^verbatim>\<open>Bytes\<close> methods, and the call of \<^verbatim>\<open>Equals\<close> on a \<^verbatim>\<open>nil\<close> signer.
\<close>

datatype error =
  ballot_already_initialized
| ballot_extract_key string
| proposal_already_initialized
| proposal_extract_key string
| inconsistent_smesher PublicKey PublicKey
| panic_failed_to_serialize_ballot string
| panic_failed_to_serialize_proposal string
| panic_nil_dereference

definition Ballot_ID :: "('atx, 'beacon) Ballot \<Rightarrow> BallotID" where
  "Ballot_ID b = ballotID b"

definition Ballot_SmesherID :: "('atx, 'beacon) Ballot \<Rightarrow> PublicKey option" where
  "Ballot_SmesherID b = smesherID b"

definition Ballot_Bytes ::
  "('atx, 'beacon, 'tx) externals \<Rightarrow> ('atx, 'beacon) Ballot \<Rightarrow> error + byte list" where
  "Ballot_Bytes ext b =
     (case codec_Encode ext (InnerBallot b) of
        Inl err \<Rightarrow> Inl (panic_failed_to_serialize_ballot err)
      | Inr data \<Rightarrow> Inr data)"

text \<open>
  \<^verbatim>\<open>Ballot.Initialize\<close> mutates the ballot through its pointer: the model returns
  the result together with the ballot as the call leaves it, on every path.
\<close>

definition Ballot_Initialize ::
  "('atx, 'beacon, 'tx) externals \<Rightarrow> ('atx, 'beacon) Ballot
     \<Rightarrow> (error + unit) \<times> ('atx, 'beacon) Ballot" where
  "Ballot_Initialize ext b =
     (if Ballot_ID b \<noteq> EmptyBallotID then (Inl ballot_already_initialized, b)
      else
        case Ballot_Bytes ext b of
          Inl panic \<Rightarrow> (Inl panic, b)
        | Inr data \<Rightarrow>
            let b1 = b\<lparr>ballotID := ToHash20 (CalcHash32 ext data)\<rparr> in
            case ExtractPublicKey ext data (Ballot.Signature b1) of
              Inl err \<Rightarrow> (Inl (ballot_extract_key err), b1)
            | Inr pubkey \<Rightarrow> (Inr (), b1\<lparr>smesherID := Some (NewPublicKey pubkey)\<rparr>))"

definition Proposal_ID :: "('atx, 'beacon, 'tx) Proposal \<Rightarrow> ProposalID" where
  "Proposal_ID p = proposalID p"

definition Proposal_Bytes ::
  "('atx, 'beacon, 'tx) externals \<Rightarrow> ('atx, 'beacon, 'tx) Proposal \<Rightarrow> error + byte list" where
  "Proposal_Bytes ext p =
     (case InterfaceToBytes ext (InnerProposal p) of
        Inl err \<Rightarrow> Inl (panic_failed_to_serialize_proposal err)
      | Inr bytes \<Rightarrow> Inr bytes)"

text \<open>The embedded ballot of a proposal, \<^verbatim>\<open>p.Ballot\<close>, read and written in place.\<close>

definition Proposal_Ballot :: "('atx, 'beacon, 'tx) Proposal \<Rightarrow> ('atx, 'beacon) Ballot" where
  "Proposal_Ballot p = Ballot (InnerProposal p)"

definition set_Ballot ::
  "('atx, 'beacon) Ballot \<Rightarrow> ('atx, 'beacon, 'tx) Proposal \<Rightarrow> ('atx, 'beacon, 'tx) Proposal" where
  "set_Ballot b p = p\<lparr>InnerProposal := (InnerProposal p)\<lparr>Ballot := b\<rparr>\<rparr>"

definition Proposal_Initialize ::
  "('atx, 'beacon, 'tx) externals \<Rightarrow> ('atx, 'beacon, 'tx) Proposal
     \<Rightarrow> (error + unit) \<times> ('atx, 'beacon, 'tx) Proposal" where
  "Proposal_Initialize ext p =
     (if Proposal_ID p \<noteq> EmptyProposalID then (Inl proposal_already_initialized, p)
      else
        case Ballot_Initialize ext (Proposal_Ballot p) of
          (Inl err, b') \<Rightarrow> (Inl err, set_Ballot b' p)
        | (Inr _, b') \<Rightarrow>
            let p1 = set_Ballot b' p in
            case Proposal_Bytes ext p1 of
              Inl panic \<Rightarrow> (Inl panic, p1)
            | Inr msg \<Rightarrow>
                case ExtractPublicKey ext msg (Proposal.Signature p1) of
                  Inl err \<Rightarrow> (Inl (proposal_extract_key err), p1)
                | Inr pubkey \<Rightarrow>
                    let pPubKey = NewPublicKey pubkey in
                    case Ballot_SmesherID (Proposal_Ballot p1) of
                      None \<Rightarrow> (Inl panic_nil_dereference, p1)
                    | Some bKey \<Rightarrow>
                        if \<not> PublicKey_Equals bKey pPubKey
                        then (Inl (inconsistent_smesher pPubKey bKey), p1)
                        else
                          case Proposal_Bytes ext p1 of
                            Inl panic \<Rightarrow> (Inl panic, p1)
                          | Inr data \<Rightarrow>
                              (Inr (), p1\<lparr>proposalID := ToHash20 (CalcHash32 ext data)\<rparr>))"

section \<open>Ordering of identifiers\<close>

text \<open>
  \<^verbatim>\<open>bytes.Compare\<close> of the Go library: the lexicographic comparison of two byte
  slices, \<open>-1\<close>, \<open>0\<close> or \<open>1\<close>; bytes compare as unsigned values and a proper prefix
  is the smaller slice.
\<close>

fun bytes_Compare :: "byte list \<Rightarrow> byte list \<Rightarrow> int" where
  "bytes_Compare [] [] = 0"
| "bytes_Compare [] (y # ys) = - 1"
| "bytes_Compare (x # xs) [] = 1"
| "bytes_Compare (x # xs) (y # ys) =
     (if x < y then - 1 else if y < x then 1 else bytes_Compare xs ys)"

definition BallotID_Compare :: "BallotID \<Rightarrow> BallotID \<Rightarrow> bool" where
  "BallotID_Compare bid other \<longleftrightarrow> bytes_Compare (BallotID_Bytes bid) (BallotID_Bytes other) < 0"

definition ProposalID_Compare :: "ProposalID \<Rightarrow> ProposalID \<Rightarrow> bool" where
  "ProposalID_Compare pid other \<longleftrightarrow>
     bytes_Compare (ProposalID_Bytes pid) (ProposalID_Bytes other) < 0"

text \<open>
  \<^verbatim>\<open>sort.Slice\<close> of the Go library sorts a slice in place by a \<^verbatim>\<open>less\<close> function and
  promises no stability. The model is an insertion sort by that function; with a strict
  total order every sorting procedure returns the same list (lemma
  \<open>sorted_by_unique\<close> below), so the choice of procedure does not show.
\<close>

fun insert_by :: "('a \<Rightarrow> 'a \<Rightarrow> bool) \<Rightarrow> 'a \<Rightarrow> 'a list \<Rightarrow> 'a list" where
  "insert_by lessf x [] = [x]"
| "insert_by lessf x (y # ys) =
     (if lessf x y then x # y # ys else y # insert_by lessf x ys)"

definition sort_Slice :: "('a \<Rightarrow> 'a \<Rightarrow> bool) \<Rightarrow> 'a list \<Rightarrow> 'a list" where
  "sort_Slice lessf xs = foldr (insert_by lessf) xs []"

definition SortProposalIDs :: "ProposalID list \<Rightarrow> ProposalID list" where
  "SortProposalIDs ids = sort_Slice ProposalID_Compare ids"

text \<open>A list is in order by \<open>lessf\<close> when no later element is \<open>lessf\<close> than an earlier one.\<close>

definition sorted_by :: "('a \<Rightarrow> 'a \<Rightarrow> bool) \<Rightarrow> 'a list \<Rightarrow> bool" where
  "sorted_by lessf xs = sorted_wrt (\<lambda>x y. \<not> lessf y x) xs"

section \<open>Stored forms\<close>

record ('atx, 'beacon) DBBallot =
  InnerBallot :: "('atx, 'beacon) InnerBallot"
  ID :: BallotID
  Signature :: "byte list"
  SmesherID :: "byte list"

definition DBBallot_ToBallot :: "('atx, 'beacon) DBBallot \<Rightarrow> ('atx, 'beacon) Ballot" where
  "DBBallot_ToBallot b =
     \<lparr>Ballot.InnerBallot = DBBallot.InnerBallot b,
      Ballot.Signature = DBBallot.Signature b,
      ballotID = DBBallot.ID b,
      smesherID = Some (NewPublicKey (SmesherID b))\<rparr>"

record 'tx DBProposal =
  ID :: ProposalID
  BallotID :: BallotID
  LayerIndex :: LayerID
  TxIDs :: "'tx list"
  Signature :: "byte list"

definition DBProposal_ToProposal ::
  "'tx DBProposal \<Rightarrow> ('atx, 'beacon) Ballot \<Rightarrow> ('atx, 'beacon, 'tx) Proposal" where
  "DBProposal_ToProposal b ballot =
     \<lparr>InnerProposal = \<lparr>Ballot = ballot, InnerProposal.TxIDs = DBProposal.TxIDs b\<rparr>,
      Proposal.Signature = DBProposal.Signature b,
      proposalID = DBProposal.ID b\<rparr>"

text \<open>
  Modelled from the spec: the functions that build the stored forms are in the
  repository's storage code, not among the sources at hand. The projection
  "extracts payload + already-cached identifier + signature, dropping the cached
  signer (not persisted)"; for a Proposal "the embedded Ballot is stored separately
  (by reference) and re-attached on reconstruction".
\<close>

definition Ballot_toCompact :: "('atx, 'beacon) Ballot \<Rightarrow> ('atx, 'beacon) DBBallot" where
  "Ballot_toCompact b =
     \<lparr>DBBallot.InnerBallot = Ballot.InnerBallot b,
      DBBallot.ID = Ballot_ID b,
      DBBallot.Signature = Ballot.Signature b,
      SmesherID = []\<rparr>"

definition Proposal_toCompact :: "('atx, 'beacon, 'tx) Proposal \<Rightarrow> 'tx DBProposal" where
  "Proposal_toCompact p =
     \<lparr>DBProposal.ID = Proposal_ID p,
      BallotID = Ballot_ID (Proposal_Ballot p),
      DBProposal.LayerIndex = InnerBallot.LayerIndex (Ballot.InnerBallot (Proposal_Ballot p)),
      DBProposal.TxIDs = InnerProposal.TxIDs (InnerProposal p),
      DBProposal.Signature = Proposal.Signature p\<rparr>"

section \<open>What the encoder does not see\<close>

text \<open>
  The cached fields of a Ballot "are kept private and from being serialized": the
  encoding of an InnerProposal does not depend on the \<^verbatim>\<open>ballotID\<close> and \<^verbatim>\<open>smesherID\<close>
  of its ballot.
\<close>

definition skips_unexported :: "('atx, 'beacon, 'tx) externals \<Rightarrow> bool" where
  "skips_unexported ext \<longleftrightarrow>
     (\<forall>ip bid key.
        InterfaceToBytes ext (ip\<lparr>Ballot := (Ballot ip)\<lparr>ballotID := bid, smesherID := key\<rparr>\<rparr>)
          = InterfaceToBytes ext ip)"

section \<open>A small instance\<close>

text \<open>
  Concrete collaborators and values on which the functions above are evaluated:
  an encoder that writes the eligibility signature (and, for a proposal, the ballot's
  signature after it), a stand-in for the hash that pads or cuts its input to 32
  bytes, and a recovery that accepts 64-byte signatures and reads the key off their
  first half.
\<close>

lift_definition pad_hash :: "byte list \<Rightarrow> Hash32"
  is "\<lambda>data :: byte list. take 32 (data @ replicate 32 7)"
  by simp

definition example_externals :: "(unit, unit, unit) externals" where
  "example_externals =
     \<lparr>codec_Encode = (\<lambda>ib. Inr (Sig (EligibilityProof ib))),
      InterfaceToBytes =
        (\<lambda>ip. Inr (Sig (EligibilityProof (Ballot.InnerBallot (Ballot ip)))
                   @ Ballot.Signature (Ballot ip))),
      CalcHash32 = pad_hash,
      ExtractPublicKey =
        (\<lambda>msg sig. if length sig = 64 then Inr (take 32 sig)
                    else Inl ''ed25519: bad signature length'')\<rparr>"

definition example_InnerBallot :: "(unit, unit) InnerBallot" where
  "example_InnerBallot =
     \<lparr>AtxID = (), EligibilityProof = \<lparr>J = 3, Sig = [1, 2, 3]\<rparr>,
      BaseBallot = EmptyBallotID, AgainstDiff = [], ForDiff = [], NeutralDiff = [],
      RefBallot = EmptyBallotID, EpochData = None, InnerBallot.LayerIndex = \<lparr>Value = 5\<rparr>\<rparr>"

definition example_Ballot :: "byte list \<Rightarrow> (unit, unit) Ballot" where
  "example_Ballot sig =
     \<lparr>Ballot.InnerBallot = example_InnerBallot, Ballot.Signature = sig,
      ballotID = EmptyBallotID, smesherID = None\<rparr>"

definition example_Proposal ::
  "(unit, unit) Ballot \<Rightarrow> byte list \<Rightarrow> (unit, unit, unit) Proposal" where
  "example_Proposal b psig =
     \<lparr>InnerProposal = \<lparr>Ballot = b, InnerProposal.TxIDs = [(), ()]\<rparr>,
      Proposal.Signature = psig, proposalID = EmptyProposalID\<rparr>"

text \<open>The signature of the key whose 32 bytes are all \<open>k\<close>.\<close>

definition sig_of :: "byte \<Rightarrow> byte list" where
  "sig_of k = replicate 64 k"

definition initialized_Ballot :: "byte \<Rightarrow> (unit, unit) Ballot" where
  "initialized_Ballot k = snd (Ballot_Initialize example_externals (example_Ballot (sig_of k)))"

definition initialized_Proposal :: "(unit, unit, unit) Proposal" where
  "initialized_Proposal =
     snd (Proposal_Initialize example_externals
            (example_Proposal (example_Ballot (sig_of 1)) (sig_of 1)))"

text \<open>A Proposal whose identifier was set when it was built, as \<^verbatim>\<open>ToProposal\<close> does.\<close>

definition stored_Proposal :: "(unit, unit, unit) Proposal" where
  "stored_Proposal =
     (example_Proposal (example_Ballot (sig_of 1)) (sig_of 2))
       \<lparr>proposalID := ToHash20 (pad_hash [1, 2, 3])\<rparr>"

definition id_a :: ProposalID where
  "id_a = zero_Hash20"

definition id_b :: ProposalID where
  "id_b = ToHash20 (pad_hash [1])"

definition id_c :: ProposalID where
  "id_c = ToHash20 (pad_hash [2])"

section \<open>Facts about the instance\<close>

lemmas example_defs = example_externals_def example_Ballot_def example_InnerBallot_def
  example_Proposal_def sig_of_def

lemma Hash20_neqI: "hd (Hash20_bytes a) \<noteq> hd (Hash20_bytes b) \<Longrightarrow> a \<noteq> b"
  by auto

lemma pad_hash_123_nonzero: "ToHash20 (pad_hash ([1, 2, 3] @ xs)) \<noteq> zero_Hash20"
  by (rule Hash20_neqI) (simp add: ToHash20.rep_eq pad_hash.rep_eq zero_Hash20.rep_eq)

lemma example_Ballot_Initialize:
  "Ballot_Initialize example_externals (example_Ballot (sig_of k)) =
     (Inr (), (example_Ballot (sig_of k))\<lparr>ballotID := ToHash20 (pad_hash [1, 2, 3]),
        smesherID := Some (NewPublicKey (replicate 32 k))\<rparr>)"
  by (simp add: Ballot_Initialize_def Ballot_Bytes_def Ballot_ID_def example_externals_def
      example_Ballot_def example_InnerBallot_def sig_of_def Let_def)

lemma initialized_Ballot_eq:
  "initialized_Ballot k =
     (example_Ballot (sig_of k))\<lparr>ballotID := ToHash20 (pad_hash [1, 2, 3]),
        smesherID := Some (NewPublicKey (replicate 32 k))\<rparr>"
  by (simp add: initialized_Ballot_def example_Ballot_Initialize)

lemma initialized_Ballot_ID: "Ballot_ID (initialized_Ballot k) \<noteq> EmptyBallotID"
  using pad_hash_123_nonzero [of "[]"]
  by (simp add: Ballot_ID_def initialized_Ballot_eq EmptyBallotID_def)

lemma example_Proposal_Initialize:
  "Proposal_Initialize example_externals (example_Proposal (example_Ballot (sig_of 1)) (sig_of k)) =
     (if k = 1
      then (Inr (), (example_Proposal (initialized_Ballot 1) (sig_of 1))
              \<lparr>proposalID := ToHash20 (pad_hash ([1, 2, 3] @ sig_of 1))\<rparr>)
      else (Inl (inconsistent_smesher (NewPublicKey (replicate 32 k))
                   (NewPublicKey (replicate 32 1))),
            example_Proposal (initialized_Ballot 1) (sig_of k)))"
proof -
  have pb: "Proposal_Ballot (example_Proposal b s) = b" for b s
    by (simp add: Proposal_Ballot_def example_Proposal_def)
  have sb: "set_Ballot b' (example_Proposal b s) = example_Proposal b' s" for b b' s
    by (simp add: set_Ballot_def example_Proposal_def)
  have bts: "Proposal_Bytes example_externals (example_Proposal (initialized_Ballot 1) s)
            = Inr ([1, 2, 3] @ sig_of 1)" for s
    by (simp add: Proposal_Bytes_def initialized_Ballot_eq example_defs)
  have ex: "ExtractPublicKey example_externals m (sig_of k) = Inr (replicate 32 k)" for m
    by (simp add: example_defs)
  have sg: "Proposal.Signature (example_Proposal b s) = s"
    and pid: "Proposal_ID (example_Proposal b s) = EmptyProposalID" for b s
    by (simp_all add: example_Proposal_def Proposal_ID_def)
  have sm: "Ballot_SmesherID (initialized_Ballot 1) = Some (NewPublicKey (replicate 32 1))"
    by (simp add: Ballot_SmesherID_def initialized_Ballot_eq)
  have ch: "CalcHash32 example_externals = pad_hash"
    by (simp add: example_externals_def)
  show ?thesis
    by (simp add: Proposal_Initialize_def pb sb bts ch ex sg pid sm example_Ballot_Initialize
        initialized_Ballot_eq [symmetric] Let_def)
qed

lemma initialized_Proposal_ID: "Proposal_ID initialized_Proposal \<noteq> EmptyProposalID"
  using pad_hash_123_nonzero [of "sig_of 1"]
  by (simp add: initialized_Proposal_def example_Proposal_Initialize Proposal_ID_def
      EmptyProposalID_def)

lemma replicate_numeral: "replicate (numeral n) x = x # replicate (pred_numeral n) x"
  by (simp add: numeral_eq_Suc)

lemma example_ids_ascend:
  "ProposalID_Compare id_a id_b"
  "ProposalID_Compare id_b id_c"
  by (simp_all add: ProposalID_Compare_def ProposalID_Bytes_def ProposalID_AsHash32_def
      ToHash32.rep_eq ToHash20.rep_eq pad_hash.rep_eq zero_Hash20.rep_eq
      id_a_def id_b_def id_c_def replicate_numeral)

section \<open>Widening an identifier\<close>

lemma Hash20_bytes_length: "length (Hash20_bytes h) = 20"
  using Hash20_bytes [of h] by simp

lemma Hash32_bytes_length: "length (Hash32_bytes h) = 32"
  using Hash32_bytes [of h] by simp

lemma ToHash32_take: "take 20 (Hash32_bytes (ToHash32 h)) = Hash20_bytes h"
  by (simp add: ToHash32.rep_eq Hash20_bytes_length)

lemma ToHash32_drop: "drop 20 (Hash32_bytes (ToHash32 h)) = replicate 12 0"
  by (simp add: ToHash32.rep_eq Hash20_bytes_length)

text \<open>
  C9. For every 20-byte identifier (BallotID or ProposalID), \<^verbatim>\<open>AsHash32\<close> keeps the
  20 identifier bytes in the leading positions of the 32-byte value and fills the
  remaining 12 bytes with zero bytes.
\<close>

theorem AsHash32_pads_right_with_zeros:
  "take 20 (Hash32_bytes (BallotID_AsHash32 bid)) = Hash20_bytes bid
   \<and> drop 20 (Hash32_bytes (BallotID_AsHash32 bid)) = replicate 12 0
   \<and> take 20 (Hash32_bytes (ProposalID_AsHash32 pid)) = Hash20_bytes pid
   \<and> drop 20 (Hash32_bytes (ProposalID_AsHash32 pid)) = replicate 12 0"
  by (simp add: BallotID_AsHash32_def ProposalID_AsHash32_def ToHash32_take ToHash32_drop)

section \<open>Initializing a Ballot\<close>

lemma Ballot_Initialize_ok:
  assumes "Ballot_ID b = EmptyBallotID"
    and "Ballot_Bytes ext b = Inr data"
    and "ExtractPublicKey ext data (Ballot.Signature b) = Inr pubkey"
  shows "Ballot_Initialize ext b =
           (Inr (), b\<lparr>ballotID := ToHash20 (CalcHash32 ext data),
                      smesherID := Some (NewPublicKey pubkey)\<rparr>)"
  using assms by (simp add: Ballot_Initialize_def Let_def)

text \<open>
  C5. For every uninitialized Ballot on which \<^verbatim>\<open>Initialize\<close> succeeds, the cached
  identifier afterwards is the 20-byte truncation of the 32-byte hash of the
  canonical encoding of its InnerBallot, the cached signer is the public key
  recovered from those same bytes and the stored signature, and no other field of
  the Ballot has changed.
\<close>

theorem Ballot_Initialize_success:
  assumes "Ballot_Initialize ext b = (Inr (), b')"
  shows "\<exists>data pubkey.
           Ballot_ID b = EmptyBallotID
         \<and> codec_Encode ext (Ballot.InnerBallot b) = Inr data
         \<and> ExtractPublicKey ext data (Ballot.Signature b) = Inr pubkey
         \<and> Ballot_ID b' = ToHash20 (CalcHash32 ext data)
         \<and> Hash20_bytes (Ballot_ID b') = take 20 (Hash32_bytes (CalcHash32 ext data))
         \<and> Ballot_SmesherID b' = Some (NewPublicKey pubkey)
         \<and> b' = b\<lparr>ballotID := ToHash20 (CalcHash32 ext data),
                   smesherID := Some (NewPublicKey pubkey)\<rparr>"
  using assms
  by (auto simp: Ballot_Initialize_def Ballot_Bytes_def Ballot_ID_def Ballot_SmesherID_def
      Let_def ToHash20.rep_eq split: if_splits sum.splits)

theorem Ballot_Initialize_success_witness:
  "Ballot_Initialize example_externals (example_Ballot (sig_of 1)) =
     (Inr (), (example_Ballot (sig_of 1))\<lparr>ballotID := ToHash20 (pad_hash [1, 2, 3]),
        smesherID := Some (NewPublicKey (replicate 32 1))\<rparr>)
   \<and> Ballot_ID ((example_Ballot (sig_of 1))\<lparr>ballotID := ToHash20 (pad_hash [1, 2, 3]),
        smesherID := Some (NewPublicKey (replicate 32 1))\<rparr>) = ToHash20 (pad_hash [1, 2, 3])"
  using Ballot_Initialize_success [OF example_Ballot_Initialize [of 1]]
    example_Ballot_Initialize [of 1]
  by (simp add: Ballot_ID_def)

text \<open>
  C6. Two Ballots whose InnerBallot payloads have the same canonical encoding get
  the same identifier from a successful \<^verbatim>\<open>Initialize\<close>, whatever their signatures:
  the identifier is a function of the encoded bytes alone.
\<close>

theorem Ballot_ID_deterministic:
  assumes "Ballot_Bytes ext b1 = Ballot_Bytes ext b2"
    and "Ballot_Initialize ext b1 = (Inr (), b1')"
    and "Ballot_Initialize ext b2 = (Inr (), b2')"
  shows "Ballot_ID b1' = Ballot_ID b2'
       \<and> (\<exists>data. Ballot_Bytes ext b1 = Inr data
              \<and> Ballot_ID b1' = ToHash20 (CalcHash32 ext data))"
  using assms
  by (auto simp: Ballot_Initialize_def Ballot_ID_def Let_def split: if_splits sum.splits)

theorem Ballot_ID_deterministic_witness:
  "Ballot_Bytes example_externals (example_Ballot (sig_of 1))
     = Ballot_Bytes example_externals (example_Ballot (sig_of 2))
   \<and> Ballot.Signature (example_Ballot (sig_of 1)) \<noteq> Ballot.Signature (example_Ballot (sig_of 2))
   \<and> Ballot_Initialize example_externals (example_Ballot (sig_of 1))
       = (Inr (), initialized_Ballot 1)
   \<and> Ballot_Initialize example_externals (example_Ballot (sig_of 2))
       = (Inr (), initialized_Ballot 2)
   \<and> Ballot_ID (initialized_Ballot 1) = Ballot_ID (initialized_Ballot 2)"
proof -
  have h1: "Ballot_Bytes example_externals (example_Ballot (sig_of 1))
     = Ballot_Bytes example_externals (example_Ballot (sig_of 2))"
    by (simp add: Ballot_Bytes_def example_defs)
  have h2: "Ballot_Initialize example_externals (example_Ballot (sig_of k))
       = (Inr (), initialized_Ballot k)" for k
    by (simp add: example_Ballot_Initialize initialized_Ballot_eq)
  from Ballot_ID_deterministic [OF h1 h2 h2] h1 h2 show ?thesis
    by (simp add: example_Ballot_def sig_of_def)
qed

text \<open>
  C2. The claim: when \<^verbatim>\<open>Initialize\<close> of an uninitialized Ballot fails because the key
  cannot be recovered, the Ballot stays unset, its identifier still empty and its
  signer still unset. The function stores the identifier before it tries the
  recovery, so what holds is this: the call returns the extraction error and leaves
  the Ballot with the identifier derived from its bytes and no signer.
\<close>

theorem Ballot_Initialize_recovery_failure:
  assumes "Ballot_ID b = EmptyBallotID"
    and "Ballot_Bytes ext b = Inr data"
    and "ExtractPublicKey ext data (Ballot.Signature b) = Inl err"
  shows "Ballot_Initialize ext b =
           (Inl (ballot_extract_key err), b\<lparr>ballotID := ToHash20 (CalcHash32 ext data)\<rparr>)"
  using assms by (simp add: Ballot_Initialize_def Let_def)

theorem Ballot_Initialize_recovery_failure_witness:
  "Ballot_ID (example_Ballot []) = EmptyBallotID
   \<and> fst (Ballot_Initialize example_externals (example_Ballot [])) =
       Inl (ballot_extract_key ''ed25519: bad signature length'')
   \<and> Ballot_ID (snd (Ballot_Initialize example_externals (example_Ballot []))) \<noteq> EmptyBallotID
   \<and> Ballot_SmesherID (snd (Ballot_Initialize example_externals (example_Ballot []))) = None"
proof -
  have h1: "Ballot_ID (example_Ballot []) = EmptyBallotID"
    by (simp add: Ballot_ID_def example_Ballot_def)
  have h2: "Ballot_Bytes example_externals (example_Ballot []) = Inr [1, 2, 3]"
    by (simp add: Ballot_Bytes_def example_defs)
  have h3: "ExtractPublicKey example_externals [1, 2, 3] (Ballot.Signature (example_Ballot []))
              = Inl ''ed25519: bad signature length''"
    by (simp add: example_defs)
  from Ballot_Initialize_recovery_failure [OF h1 h2 h3] h1 pad_hash_123_nonzero [of "[]"]
  show ?thesis
    by (simp add: Ballot_ID_def Ballot_SmesherID_def EmptyBallotID_def example_externals_def
        example_Ballot_def)
qed

section \<open>Initializing a Proposal\<close>

lemma set_Ballot_same: "set_Ballot (Proposal_Ballot p) p = p"
  by (simp add: set_Ballot_def Proposal_Ballot_def)

lemma Proposal_Ballot_set_Ballot: "Proposal_Ballot (set_Ballot b p) = b"
  by (simp add: set_Ballot_def Proposal_Ballot_def)

lemma Proposal_ID_set_Ballot: "Proposal_ID (set_Ballot b p) = Proposal_ID p"
  by (simp add: set_Ballot_def Proposal_ID_def)

lemma Proposal_Ballot_proposalID_update:
  "Proposal_Ballot (p\<lparr>proposalID := i\<rparr>) = Proposal_Ballot p"
  by (simp add: Proposal_Ballot_def)

lemma Proposal_Bytes_skips:
  "skips_unexported ext \<Longrightarrow>
   Proposal_Bytes ext (set_Ballot ((Proposal_Ballot p)\<lparr>ballotID := bid, smesherID := k\<rparr>) p)
     = Proposal_Bytes ext p"
  by (simp add: skips_unexported_def Proposal_Bytes_def set_Ballot_def Proposal_Ballot_def)

text \<open>
  C4. For every already-initialized Ballot (identifier not the empty one) and every
  already-initialized Proposal, \<^verbatim>\<open>Initialize\<close> fails with the already-initialized
  error and leaves the object, its cached identifier and signer included, as it was.
\<close>

theorem Initialize_again_fails:
  "(Ballot_ID b \<noteq> EmptyBallotID \<longrightarrow>
      Ballot_Initialize ext b = (Inl ballot_already_initialized, b))
   \<and> (Proposal_ID p \<noteq> EmptyProposalID \<longrightarrow>
      Proposal_Initialize ext p = (Inl proposal_already_initialized, p))"
  by (simp add: Ballot_Initialize_def Proposal_Initialize_def)

theorem Initialize_again_fails_witness:
  "Ballot_ID (initialized_Ballot 1) \<noteq> EmptyBallotID
   \<and> Ballot_Initialize example_externals (initialized_Ballot 1)
       = (Inl ballot_already_initialized, initialized_Ballot 1)
   \<and> Proposal_ID initialized_Proposal \<noteq> EmptyProposalID
   \<and> Proposal_Initialize example_externals initialized_Proposal
       = (Inl proposal_already_initialized, initialized_Proposal)"
  using Initialize_again_fails [of "initialized_Ballot 1" example_externals initialized_Proposal]
    initialized_Ballot_ID [of 1] initialized_Proposal_ID
  by simp

text \<open>
  C1. The claim: every Proposal whose signature recovers to another key than its
  embedded Ballot's signature fails \<^verbatim>\<open>Initialize\<close> with the signer mismatch error.
  As amended: every uninitialized Proposal over an uninitialized Ballot, where the
  key recovered from the InnerProposal bytes and the Proposal's signature differs
  from the key recovered from the InnerBallot bytes and the Ballot's signature,
  fails \<^verbatim>\<open>Initialize\<close> with the signer mismatch error, which names the two keys.
\<close>

theorem Proposal_Initialize_signer_mismatch:
  assumes "skips_unexported ext"
    and "Proposal_ID p = EmptyProposalID"
    and "Ballot_ID (Proposal_Ballot p) = EmptyBallotID"
    and "Ballot_Bytes ext (Proposal_Ballot p) = Inr bdata"
    and "ExtractPublicKey ext bdata (Ballot.Signature (Proposal_Ballot p)) = Inr bkey"
    and "Proposal_Bytes ext p = Inr pdata"
    and "ExtractPublicKey ext pdata (Proposal.Signature p) = Inr pkey"
    and "pkey \<noteq> bkey"
  shows "fst (Proposal_Initialize ext p) =
           Inl (inconsistent_smesher (NewPublicKey pkey) (NewPublicKey bkey))"
proof -
  let ?b' = "(Proposal_Ballot p)\<lparr>ballotID := ToHash20 (CalcHash32 ext bdata),
               smesherID := Some (NewPublicKey bkey)\<rparr>"
  have bi: "Ballot_Initialize ext (Proposal_Ballot p) = (Inr (), ?b')"
    using assms(3-5) by (rule Ballot_Initialize_ok)
  have pb: "Proposal_Bytes ext (set_Ballot ?b' p) = Inr pdata"
    using Proposal_Bytes_skips [OF assms(1)] assms(6) by simp
  have sg: "Proposal.Signature (set_Ballot ?b' p) = Proposal.Signature p"
    by (simp add: set_Ballot_def)
  show ?thesis
    using assms(2,7,8) bi pb sg
    by (simp add: Proposal_Initialize_def Let_def Proposal_Ballot_set_Ballot Ballot_SmesherID_def)
qed

theorem Proposal_Initialize_signer_mismatch_witness:
  "skips_unexported example_externals
   \<and> Proposal_ID (example_Proposal (example_Ballot (sig_of 1)) (sig_of 2)) = EmptyProposalID
   \<and> Ballot_ID (example_Ballot (sig_of 1)) = EmptyBallotID
   \<and> ExtractPublicKey example_externals [1, 2, 3] (sig_of 1) = Inr (replicate 32 1)
   \<and> ExtractPublicKey example_externals ([1, 2, 3] @ sig_of 1) (sig_of 2) = Inr (replicate 32 2)
   \<and> fst (Proposal_Initialize example_externals
             (example_Proposal (example_Ballot (sig_of 1)) (sig_of 2))) =
       Inl (inconsistent_smesher (NewPublicKey (replicate 32 2)) (NewPublicKey (replicate 32 1)))"
proof -
  let ?p = "example_Proposal (example_Ballot (sig_of 1)) (sig_of 2)"
  have h1: "skips_unexported example_externals"
    by (simp add: skips_unexported_def example_externals_def)
  have h2: "Proposal_ID ?p = EmptyProposalID"
    by (simp add: Proposal_ID_def example_Proposal_def)
  have h3: "Ballot_ID (Proposal_Ballot ?p) = EmptyBallotID"
    by (simp add: Ballot_ID_def Proposal_Ballot_def example_Proposal_def example_Ballot_def)
  have h4: "Ballot_Bytes example_externals (Proposal_Ballot ?p) = Inr [1, 2, 3]"
    by (simp add: Ballot_Bytes_def Proposal_Ballot_def example_defs)
  have h5: "ExtractPublicKey example_externals [1, 2, 3]
              (Ballot.Signature (Proposal_Ballot ?p)) = Inr (replicate 32 1)"
    by (simp add: Proposal_Ballot_def example_defs)
  have h6: "Proposal_Bytes example_externals ?p = Inr ([1, 2, 3] @ sig_of 1)"
    by (simp add: Proposal_Bytes_def example_defs)
  have h7: "ExtractPublicKey example_externals ([1, 2, 3] @ sig_of 1) (Proposal.Signature ?p)
              = Inr (replicate 32 2)"
    by (simp add: example_defs)
  have h8: "replicate 32 (2 :: byte) \<noteq> replicate 32 1"
    by simp
  from Proposal_Initialize_signer_mismatch [OF h1 h2 h3 h4 h5 h6 h7 h8] h1 h2 h3 h5 h7
  show ?thesis
    by (simp add: Proposal_Ballot_def example_Proposal_def example_Ballot_def)
qed

text \<open>
  The claim C1 fails on a Proposal signed by another key than its Ballot when the
  embedded Ballot is already initialized, and when the Proposal itself already
  carries an identifier: the call stops at the guard of the Ballot, or at its own,
  before the two keys are compared.
\<close>

theorem Proposal_Initialize_signer_mismatch_counterexample:
  "Ballot_SmesherID (Proposal_Ballot (example_Proposal (initialized_Ballot 1) (sig_of 2)))
     = Some (NewPublicKey (replicate 32 1))
   \<and> Proposal_Bytes example_externals (example_Proposal (initialized_Ballot 1) (sig_of 2))
       = Inr ([1, 2, 3] @ sig_of 1)
   \<and> ExtractPublicKey example_externals ([1, 2, 3] @ sig_of 1)
        (Proposal.Signature (example_Proposal (initialized_Ballot 1) (sig_of 2)))
       = Inr (replicate 32 2)
   \<and> replicate 32 (2 :: byte) \<noteq> replicate 32 1
   \<and> fst (Proposal_Initialize example_externals
             (example_Proposal (initialized_Ballot 1) (sig_of 2)))
       = Inl ballot_already_initialized
   \<and> Proposal_Bytes example_externals stored_Proposal = Inr ([1, 2, 3] @ sig_of 1)
   \<and> ExtractPublicKey example_externals ([1, 2, 3] @ sig_of 1)
        (Proposal.Signature stored_Proposal) = Inr (replicate 32 2)
   \<and> ExtractPublicKey example_externals [1, 2, 3]
        (Ballot.Signature (Proposal_Ballot stored_Proposal)) = Inr (replicate 32 1)
   \<and> fst (Proposal_Initialize example_externals stored_Proposal)
       = Inl proposal_already_initialized"
  using pad_hash_123_nonzero [of "[]"]
  by (simp add: Proposal_Initialize_def Ballot_Initialize_def Proposal_ID_def Ballot_ID_def
      Proposal_Ballot_def Ballot_SmesherID_def Proposal_Bytes_def initialized_Ballot_eq
      stored_Proposal_def example_defs EmptyBallotID_def EmptyProposalID_def)

text \<open>
  C3. The claim: \<^verbatim>\<open>Initialize\<close> of a Proposal initializes the embedded Ballot only
  when that is still to be done and then proceeds, so a Proposal over an
  already-initialized Ballot does not fail at that step. As amended: \<^verbatim>\<open>Initialize\<close> of
  an uninitialized Proposal always calls the embedded Ballot's \<^verbatim>\<open>Initialize\<close> and
  keeps the Ballot as that call left it; when that call fails it returns its error,
  so over an already-initialized Ballot it fails with the Ballot's
  already-initialized error and changes nothing; when that call succeeds it proceeds
  with the remaining steps, and with a Proposal signature that recovers to the
  Ballot's signer it succeeds and sets the Proposal's identifier.
\<close>

theorem Proposal_Initialize_Ballot_step:
  "(Proposal_ID p = EmptyProposalID \<longrightarrow>
      Proposal_Ballot (snd (Proposal_Initialize ext p))
        = snd (Ballot_Initialize ext (Proposal_Ballot p)))
   \<and> (Proposal_ID p = EmptyProposalID \<and> Ballot_Initialize ext (Proposal_Ballot p) = (Inl e, b')
      \<longrightarrow> Proposal_Initialize ext p = (Inl e, set_Ballot b' p))
   \<and> (Proposal_ID p = EmptyProposalID \<and> Ballot_ID (Proposal_Ballot p) \<noteq> EmptyBallotID
      \<longrightarrow> Proposal_Initialize ext p = (Inl ballot_already_initialized, p))
   \<and> (Proposal_ID p = EmptyProposalID
        \<and> Ballot_Initialize ext (Proposal_Ballot p) = (Inr (), b'')
        \<and> Proposal_Bytes ext (set_Ballot b'' p) = Inr data
        \<and> ExtractPublicKey ext data (Proposal.Signature p) = Inr pubkey
        \<and> Ballot_SmesherID b'' = Some (NewPublicKey pubkey)
      \<longrightarrow> Proposal_Initialize ext p
            = (Inr (), (set_Ballot b'' p)\<lparr>proposalID := ToHash20 (CalcHash32 ext data)\<rparr>))"
proof -
  have sg: "Proposal.Signature (set_Ballot b p) = Proposal.Signature p" for b
    by (simp add: set_Ballot_def)
  have kept: "Proposal_ID p = EmptyProposalID \<longrightarrow>
      Proposal_Ballot (snd (Proposal_Initialize ext p))
        = snd (Ballot_Initialize ext (Proposal_Ballot p))"
    by (auto simp: Proposal_Initialize_def Let_def Proposal_Ballot_set_Ballot
        Proposal_Ballot_proposalID_update split: sum.splits prod.splits option.splits)
  have fails: "Proposal_ID p = EmptyProposalID
        \<and> Ballot_Initialize ext (Proposal_Ballot p) = (Inl e, b')
      \<longrightarrow> Proposal_Initialize ext p = (Inl e, set_Ballot b' p)"
    by (simp add: Proposal_Initialize_def)
  have again: "Proposal_ID p = EmptyProposalID \<and> Ballot_ID (Proposal_Ballot p) \<noteq> EmptyBallotID
      \<longrightarrow> Proposal_Initialize ext p = (Inl ballot_already_initialized, p)"
    by (simp add: Proposal_Initialize_def Ballot_Initialize_def set_Ballot_same)
  have proceeds: "Proposal_ID p = EmptyProposalID
        \<and> Ballot_Initialize ext (Proposal_Ballot p) = (Inr (), b'')
        \<and> Proposal_Bytes ext (set_Ballot b'' p) = Inr data
        \<and> ExtractPublicKey ext data (Proposal.Signature p) = Inr pubkey
        \<and> Ballot_SmesherID b'' = Some (NewPublicKey pubkey)
      \<longrightarrow> Proposal_Initialize ext p
            = (Inr (), (set_Ballot b'' p)\<lparr>proposalID := ToHash20 (CalcHash32 ext data)\<rparr>)"
    by (simp add: Proposal_Initialize_def Let_def Proposal_Ballot_set_Ballot sg)
  from kept fails again proceeds show ?thesis by blast
qed

theorem Proposal_Initialize_Ballot_step_witness:
  "Proposal_ID (example_Proposal (initialized_Ballot 2) (sig_of 2)) = EmptyProposalID
   \<and> Ballot_ID (Proposal_Ballot (example_Proposal (initialized_Ballot 2) (sig_of 2)))
       \<noteq> EmptyBallotID
   \<and> Proposal_Initialize example_externals (example_Proposal (initialized_Ballot 2) (sig_of 2))
       = (Inl ballot_already_initialized, example_Proposal (initialized_Ballot 2) (sig_of 2))
   \<and> Ballot_Initialize example_externals
        (Proposal_Ballot (example_Proposal (example_Ballot (sig_of 1)) (sig_of 1)))
       = (Inr (), initialized_Ballot 1)
   \<and> Proposal_Initialize example_externals (example_Proposal (example_Ballot (sig_of 1)) (sig_of 1))
       = (Inr (), (example_Proposal (initialized_Ballot 1) (sig_of 1))
                    \<lparr>proposalID := ToHash20 (pad_hash ([1, 2, 3] @ sig_of 1))\<rparr>)
   \<and> Proposal_Ballot (snd (Proposal_Initialize example_externals
                              (example_Proposal (example_Ballot (sig_of 1)) (sig_of 1))))
       = initialized_Ballot 1"
proof -
  let ?p = "example_Proposal (initialized_Ballot 2) (sig_of 2)"
  let ?q = "example_Proposal (example_Ballot (sig_of 1)) (sig_of 1)"
  have h1: "Proposal_ID ?p = EmptyProposalID" and k1: "Proposal_ID ?q = EmptyProposalID"
    by (simp_all add: Proposal_ID_def example_Proposal_def)
  have h2: "Ballot_ID (Proposal_Ballot ?p) \<noteq> EmptyBallotID"
    using initialized_Ballot_ID [of 2] by (simp add: Proposal_Ballot_def example_Proposal_def)
  have k2: "Ballot_Initialize example_externals (Proposal_Ballot ?q)
              = (Inr (), initialized_Ballot 1)"
    by (simp add: Proposal_Ballot_def example_Proposal_def example_Ballot_Initialize
        initialized_Ballot_eq)
  have sb: "set_Ballot (initialized_Ballot 1) ?q
              = example_Proposal (initialized_Ballot 1) (sig_of 1)"
    by (simp add: set_Ballot_def example_Proposal_def)
  have k3: "Proposal_Bytes example_externals (set_Ballot (initialized_Ballot 1) ?q)
              = Inr ([1, 2, 3] @ sig_of 1)"
    unfolding sb by (simp add: Proposal_Bytes_def initialized_Ballot_eq example_defs)
  have k4: "ExtractPublicKey example_externals ([1, 2, 3] @ sig_of 1) (Proposal.Signature ?q)
              = Inr (replicate 32 1)"
    by (simp add: example_defs)
  have k5: "Ballot_SmesherID (initialized_Ballot 1) = Some (NewPublicKey (replicate 32 1))"
    by (simp add: Ballot_SmesherID_def initialized_Ballot_eq)
  have ch: "CalcHash32 example_externals = pad_hash"
    by (simp add: example_externals_def)
  from Proposal_Initialize_Ballot_step
         [of ?p example_externals ballot_already_initialized "Proposal_Ballot ?p"] h1 h2
  have r1: "Proposal_Initialize example_externals ?p = (Inl ballot_already_initialized, ?p)"
    by simp
  note step = Proposal_Initialize_Ballot_step [of ?q example_externals _ _
      "initialized_Ballot 1" "[1, 2, 3] @ sig_of 1" "replicate 32 1"]
  from step k1 k2 k3 k4 k5
  have r2: "Proposal_Initialize example_externals ?q
       = (Inr (), (example_Proposal (initialized_Ballot 1) (sig_of 1))
                    \<lparr>proposalID := ToHash20 (pad_hash ([1, 2, 3] @ sig_of 1))\<rparr>)"
    by (simp add: sb ch)
  from step [THEN conjunct1] k1 k2
  have r3: "Proposal_Ballot (snd (Proposal_Initialize example_externals ?q))
       = initialized_Ballot 1"
    by simp
  from h1 h2 r1 k2 r2 r3 show ?thesis by simp
qed

text \<open>
  The claim C3 fails on a Proposal that is itself uninitialized, carries a
  signature of the Ballot's signer, and embeds a Ballot that \<^verbatim>\<open>Initialize\<close> has
  already completed: the call stops at the embedded Ballot.
\<close>

theorem Proposal_Initialize_initialized_Ballot_counterexample:
  "Proposal_ID (example_Proposal (initialized_Ballot 1) (sig_of 1)) = EmptyProposalID
   \<and> Ballot_ID (Proposal_Ballot (example_Proposal (initialized_Ballot 1) (sig_of 1)))
       \<noteq> EmptyBallotID
   \<and> Ballot_SmesherID (Proposal_Ballot (example_Proposal (initialized_Ballot 1) (sig_of 1)))
       = Some (NewPublicKey (replicate 32 1))
   \<and> Proposal_Bytes example_externals (example_Proposal (initialized_Ballot 1) (sig_of 1))
       = Inr ([1, 2, 3] @ sig_of 1)
   \<and> ExtractPublicKey example_externals ([1, 2, 3] @ sig_of 1)
        (Proposal.Signature (example_Proposal (initialized_Ballot 1) (sig_of 1)))
       = Inr (replicate 32 1)
   \<and> fst (Proposal_Initialize example_externals
             (example_Proposal (initialized_Ballot 1) (sig_of 1)))
       = Inl ballot_already_initialized"
  using pad_hash_123_nonzero [of "[]"]
  by (simp add: Proposal_Initialize_def Ballot_Initialize_def Proposal_ID_def Ballot_ID_def
      Proposal_Ballot_def Ballot_SmesherID_def Proposal_Bytes_def initialized_Ballot_eq
      example_defs EmptyBallotID_def)

text \<open>
  C10. The claim: whenever \<^verbatim>\<open>Initialize\<close> of a Proposal returns an error, the
  already-initialized error among them, the Proposal's identifier is left empty. As
  amended: whenever it returns an error the Proposal's identifier is left as it was
  before the call, which is the empty identifier for every error other than the
  already-initialized one; the identifier is assigned only as the last step of the
  success path.
\<close>

theorem Proposal_Initialize_error_keeps_ID:
  assumes "Proposal_Initialize ext p = (Inl e, p')"
  shows "Proposal_ID p' = Proposal_ID p
       \<and> (e \<noteq> proposal_already_initialized \<longrightarrow> Proposal_ID p' = EmptyProposalID)"
  using assms
  by (auto simp: Proposal_Initialize_def Let_def Proposal_ID_set_Ballot
      split: if_splits sum.splits prod.splits option.splits)

theorem Proposal_Initialize_error_keeps_ID_witness:
  "Proposal_Initialize example_externals (example_Proposal (example_Ballot (sig_of 1)) (sig_of 3))
     = (Inl (inconsistent_smesher (NewPublicKey (replicate 32 3)) (NewPublicKey (replicate 32 1))),
        example_Proposal (initialized_Ballot 1) (sig_of 3))
   \<and> Proposal_ID (example_Proposal (initialized_Ballot 1) (sig_of 3)) = EmptyProposalID"
proof -
  have h: "Proposal_Initialize example_externals
             (example_Proposal (example_Ballot (sig_of 1)) (sig_of 3))
     = (Inl (inconsistent_smesher (NewPublicKey (replicate 32 3)) (NewPublicKey (replicate 32 1))),
        example_Proposal (initialized_Ballot 1) (sig_of 3))"
    by (simp add: example_Proposal_Initialize)
  from Proposal_Initialize_error_keeps_ID [OF h] h show ?thesis
    by (simp add: Proposal_ID_def example_Proposal_def)
qed

text \<open>
  The claim C10 fails on a Proposal that \<^verbatim>\<open>Initialize\<close> has already completed: the
  second call returns an error and the identifier is not the empty one.
\<close>

theorem Proposal_Initialize_error_ID_counterexample:
  "fst (Proposal_Initialize example_externals initialized_Proposal)
     = Inl proposal_already_initialized
   \<and> Proposal_ID (snd (Proposal_Initialize example_externals initialized_Proposal))
       \<noteq> EmptyProposalID"
  using initialized_Proposal_ID by (simp add: Proposal_Initialize_def)

section \<open>The order on identifiers\<close>

lemma bytes_Compare_same: "bytes_Compare xs xs = 0"
  by (induction xs) simp_all

lemma bytes_Compare_flip: "bytes_Compare xs ys < 0 \<longleftrightarrow> 0 < bytes_Compare ys xs"
  by (induction xs ys rule: bytes_Compare.induct) auto

lemma bytes_Compare_cases:
  "bytes_Compare xs ys < 0 \<or> xs = ys \<or> bytes_Compare ys xs < 0"
  by (induction xs ys rule: bytes_Compare.induct) auto

lemma bytes_Compare_trans:
  "bytes_Compare xs ys < 0 \<Longrightarrow> bytes_Compare ys zs < 0 \<Longrightarrow> bytes_Compare xs zs < 0"
proof (induction xs zs arbitrary: ys rule: bytes_Compare.induct)
  case 1
  then show ?case by (cases ys) simp_all
next
  case (2 z zs)
  then show ?case by simp
next
  case (3 x xs)
  then show ?case by (cases ys) (simp_all split: if_splits)
next
  case (4 x xs z zs)
  show ?case
  proof (cases ys)
    case Nil
    with 4 show ?thesis by simp
  next
    case (Cons y ys')
    show ?thesis
    proof (cases "x < z")
      case True
      then show ?thesis by simp
    next
      case False
      from "4.prems" Cons have xy: "x \<le> y" and yz: "y \<le> z"
        by (auto split: if_splits)
      with False have "x = y" "y = z" by auto
      with "4.prems" Cons have "bytes_Compare xs ys' < 0" "bytes_Compare ys' zs < 0"
        by auto
      with "4.IH" [of ys'] False \<open>x = y\<close> \<open>y = z\<close> show ?thesis by simp
    qed
  qed
qed

lemma ToHash32_inject: "Hash32_bytes (ToHash32 a) = Hash32_bytes (ToHash32 b) \<Longrightarrow> a = b"
  by (simp add: ToHash32.rep_eq Hash20_bytes_inject)

lemma ProposalID_Compare_irrefl: "\<not> ProposalID_Compare a a"
  by (simp add: ProposalID_Compare_def bytes_Compare_same)

lemma ProposalID_Compare_asym: "ProposalID_Compare a b \<Longrightarrow> \<not> ProposalID_Compare b a"
  using bytes_Compare_flip [of "ProposalID_Bytes a" "ProposalID_Bytes b"]
  by (simp add: ProposalID_Compare_def)

lemma ProposalID_Compare_trans:
  "ProposalID_Compare a b \<Longrightarrow> ProposalID_Compare b c \<Longrightarrow> ProposalID_Compare a c"
  unfolding ProposalID_Compare_def by (rule bytes_Compare_trans)

lemma ProposalID_Compare_total:
  "\<not> ProposalID_Compare a b \<Longrightarrow> \<not> ProposalID_Compare b a \<Longrightarrow> a = b"
  using bytes_Compare_cases [of "ProposalID_Bytes a" "ProposalID_Bytes b"]
  by (auto simp: ProposalID_Compare_def ProposalID_Bytes_def ProposalID_AsHash32_def
      dest: ToHash32_inject)

lemma BallotID_Compare_eq: "BallotID_Compare = ProposalID_Compare"
  by (simp add: fun_eq_iff BallotID_Compare_def ProposalID_Compare_def BallotID_Bytes_def
      ProposalID_Bytes_def BallotID_AsHash32_def ProposalID_AsHash32_def)

lemma mset_insert_by: "mset (insert_by lessf x xs) = add_mset x (mset xs)"
  by (induction xs) simp_all

lemma mset_sort_Slice: "mset (sort_Slice lessf xs) = mset xs"
  by (induction xs) (simp_all add: sort_Slice_def mset_insert_by)

lemma set_insert_by: "set (insert_by lessf x xs) = insert x (set xs)"
  using mset_insert_by [of lessf x xs, THEN arg_cong, of set_mset] by simp

lemma sorted_by_insert_by:
  assumes asym: "\<And>a b. lessf a b \<Longrightarrow> \<not> lessf b a"
    and trans: "\<And>a b c. lessf a b \<Longrightarrow> lessf b c \<Longrightarrow> lessf a c"
  shows "sorted_by lessf xs \<Longrightarrow> sorted_by lessf (insert_by lessf x xs)"
proof (induction xs)
  case Nil
  then show ?case by (simp add: sorted_by_def)
next
  case (Cons y ys)
  show ?case
  proof (cases "lessf x y")
    case True
    have "\<not> lessf z x" if "z \<in> set ys" for z
    proof
      assume "lessf z x"
      from this True have "lessf z y" by (rule trans)
      with Cons.prems that show False by (simp add: sorted_by_def)
    qed
    with True Cons.prems asym show ?thesis by (auto simp: sorted_by_def)
  next
    case False
    with Cons show ?thesis by (auto simp: sorted_by_def set_insert_by)
  qed
qed

lemma sorted_by_sort_Slice:
  assumes "\<And>a b. lessf a b \<Longrightarrow> \<not> lessf b a"
    and "\<And>a b c. lessf a b \<Longrightarrow> lessf b c \<Longrightarrow> lessf a c"
  shows "sorted_by lessf (sort_Slice lessf xs)"
proof (induction xs)
  case Nil
  show ?case by (simp add: sort_Slice_def sorted_by_def)
next
  case (Cons x xs)
  have "sorted_by lessf (insert_by lessf x (sort_Slice lessf xs))"
    using assms Cons by (rule sorted_by_insert_by)
  then show ?case by (simp add: sort_Slice_def)
qed

lemma sorted_by_unique:
  assumes total: "\<And>a b. \<not> lessf a b \<Longrightarrow> \<not> lessf b a \<Longrightarrow> a = b"
  shows "sorted_by lessf xs \<Longrightarrow> sorted_by lessf ys \<Longrightarrow> mset xs = mset ys \<Longrightarrow> xs = ys"
proof (induction xs arbitrary: ys)
  case Nil
  then show ?case by simp
next
  case (Cons x xs)
  from Cons.prems(3) obtain y ys' where ys: "ys = y # ys'"
    by (cases ys) auto
  have "x = y"
  proof (rule ccontr)
    assume ne: "x \<noteq> y"
    have "x \<in> set ys" "y \<in> set (x # xs)"
      using Cons.prems(3) ys by (metis list.set_intros(1) mset_eq_setD)+
    with ne ys have "x \<in> set ys'" "y \<in> set xs" by auto
    with Cons.prems(1,2) ys have "\<not> lessf y x" "\<not> lessf x y"
      by (auto simp: sorted_by_def)
    with total ne show False by blast
  qed
  with Cons.prems ys have "sorted_by lessf xs" "sorted_by lessf ys'" "mset xs = mset ys'"
    by (auto simp: sorted_by_def)
  with Cons.IH \<open>x = y\<close> ys show ?case by simp
qed

text \<open>
  C7. \<^verbatim>\<open>Compare\<close> on ProposalIDs and on BallotIDs is a strict total order: it is
  irreflexive, two identifiers are never each below the other, neither is below the
  other exactly when they are equal, and it is transitive. \<^verbatim>\<open>SortProposalIDs\<close>
  returns a reordering of its input that is in order by \<^verbatim>\<open>Compare\<close>, returns the
  same list for any two reorderings of a list, and that list is the only reordering
  that is in order.
\<close>

theorem Compare_strict_total_order:
  "\<not> ProposalID_Compare a a
   \<and> \<not> (ProposalID_Compare a b \<and> ProposalID_Compare b a)
   \<and> ((\<not> ProposalID_Compare a b \<and> \<not> ProposalID_Compare b a) \<longleftrightarrow> a = b)
   \<and> (ProposalID_Compare a b \<and> ProposalID_Compare b c \<longrightarrow> ProposalID_Compare a c)
   \<and> \<not> BallotID_Compare a a
   \<and> \<not> (BallotID_Compare a b \<and> BallotID_Compare b a)
   \<and> ((\<not> BallotID_Compare a b \<and> \<not> BallotID_Compare b a) \<longleftrightarrow> a = b)
   \<and> (BallotID_Compare a b \<and> BallotID_Compare b c \<longrightarrow> BallotID_Compare a c)
   \<and> sorted_by ProposalID_Compare (SortProposalIDs xs)
   \<and> mset (SortProposalIDs xs) = mset xs
   \<and> (mset xs = mset ys \<longrightarrow> SortProposalIDs xs = SortProposalIDs ys)
   \<and> (sorted_by ProposalID_Compare zs \<and> mset zs = mset xs \<longrightarrow> zs = SortProposalIDs xs)"
proof -
  have ord: "\<not> ProposalID_Compare a a
     \<and> \<not> (ProposalID_Compare a b \<and> ProposalID_Compare b a)
     \<and> ((\<not> ProposalID_Compare a b \<and> \<not> ProposalID_Compare b a) \<longleftrightarrow> a = b)
     \<and> (ProposalID_Compare a b \<and> ProposalID_Compare b c \<longrightarrow> ProposalID_Compare a c)"
    using ProposalID_Compare_irrefl ProposalID_Compare_asym ProposalID_Compare_trans
      ProposalID_Compare_total by blast
  have srt: "sorted_by ProposalID_Compare (SortProposalIDs us)" for us
    unfolding SortProposalIDs_def
    by (rule sorted_by_sort_Slice)
      (blast intro: ProposalID_Compare_trans dest: ProposalID_Compare_asym)+
  have ms: "mset (SortProposalIDs us) = mset us" for us
    by (simp add: SortProposalIDs_def mset_sort_Slice)
  have uniq: "us = vs"
    if "sorted_by ProposalID_Compare us" "sorted_by ProposalID_Compare vs" "mset us = mset vs"
    for us vs
    using ProposalID_Compare_total that by (rule sorted_by_unique)
  have perm: "SortProposalIDs xs = SortProposalIDs ys" if "mset xs = mset ys"
    using srt srt that by (intro uniq) (simp_all add: ms)
  have only: "zs = SortProposalIDs xs" if "sorted_by ProposalID_Compare zs" "mset zs = mset xs"
    using that srt by (intro uniq) (simp_all add: ms)
  from ord srt ms perm only show ?thesis
    unfolding BallotID_Compare_eq by blast
qed

theorem Compare_strict_total_order_witness:
  "ProposalID_Compare id_a id_b \<and> ProposalID_Compare id_b id_c \<and> ProposalID_Compare id_a id_c
   \<and> \<not> ProposalID_Compare id_b id_a \<and> id_a \<noteq> id_b
   \<and> mset [id_c, id_a, id_b] = mset [id_b, id_c, id_a]
   \<and> SortProposalIDs [id_c, id_a, id_b] = SortProposalIDs [id_b, id_c, id_a]
   \<and> sorted_by ProposalID_Compare [id_a, id_b, id_c]
   \<and> SortProposalIDs [id_c, id_a, id_b] = [id_a, id_b, id_c]"
proof -
  note ord = Compare_strict_total_order
    [of id_a id_b id_c "[id_c, id_a, id_b]" "[id_b, id_c, id_a]" "[id_a, id_b, id_c]"]
  have ab: "ProposalID_Compare id_a id_b" and bc: "ProposalID_Compare id_b id_c"
    by (rule example_ids_ascend)+
  from ord ab bc have ac: "ProposalID_Compare id_a id_c" by blast
  from ord ab have nba: "\<not> ProposalID_Compare id_b id_a" and ne: "id_a \<noteq> id_b" by blast+
  from Compare_strict_total_order [of id_b id_c id_a] bc
  have ncb: "\<not> ProposalID_Compare id_c id_b" by blast
  from Compare_strict_total_order [of id_a id_c id_b] ac
  have nca: "\<not> ProposalID_Compare id_c id_a" by blast
  have ms: "mset [id_c, id_a, id_b] = mset [id_b, id_c, id_a]"
    and ms': "mset [id_a, id_b, id_c] = mset [id_c, id_a, id_b]"
    by simp_all
  have so: "sorted_by ProposalID_Compare [id_a, id_b, id_c]"
    using nba ncb nca by (simp add: sorted_by_def)
  from ord ms have eq: "SortProposalIDs [id_c, id_a, id_b] = SortProposalIDs [id_b, id_c, id_a]"
    by blast
  from ord so ms' have "[id_a, id_b, id_c] = SortProposalIDs [id_c, id_a, id_b]"
    by blast
  with ab bc ac nba ne ms eq so show ?thesis by simp
qed

section \<open>Stored forms and back\<close>

text \<open>
  C8. Storing and reloading keeps the identity: a Ballot rebuilt from its stored
  form has the identifier, the signature and the InnerBallot of the original, and a
  Proposal rebuilt from its stored form, with its embedded Ballot supplied again, is
  the original Proposal (identifier, signature, transaction list and Ballot).
\<close>

theorem compact_round_trip:
  "Ballot_ID (DBBallot_ToBallot (Ballot_toCompact x)) = Ballot_ID x
   \<and> Ballot.Signature (DBBallot_ToBallot (Ballot_toCompact x)) = Ballot.Signature x
   \<and> Ballot.InnerBallot (DBBallot_ToBallot (Ballot_toCompact x)) = Ballot.InnerBallot x
   \<and> DBProposal_ToProposal (Proposal_toCompact y) (Proposal_Ballot y) = y"
  by (simp add: DBBallot_ToBallot_def Ballot_toCompact_def Ballot_ID_def
      DBProposal_ToProposal_def Proposal_toCompact_def Proposal_ID_def Proposal_Ballot_def)

end
